theory Spec2Isabelle
  imports Main
begin

section \<open>Husqvarna Automower BLE: data model\<close>

text \<open>
  The integration binds two external systems: the BLE client library
  (\<open>automower_ble\<close>) and the host framework. Their enumerations are
  rendered as datatypes holding the members the integration names, plus one
  constructor for every other member.
\<close>

datatype MowerState =
    MowerState_PAUSED
  | MowerState_WAIT_FOR_SAFETYPIN
  | MowerState_STOPPED
  | MowerState_FATAL_ERROR
  | MowerState_ERROR
  | MowerState_PENDING_START
  | MowerState_IN_OPERATION
  | MowerState_RESTRICTED
  | MowerState_OTHER nat

datatype MowerActivity =
    MowerActivity_CHARGING
  | MowerActivity_PARKED
  | MowerActivity_GOING_OUT
  | MowerActivity_MOWING
  | MowerActivity_GOING_HOME
  | MowerActivity_OTHER nat

datatype LawnMowerActivity =
    LawnMowerActivity_ERROR
  | LawnMowerActivity_PAUSED
  | LawnMowerActivity_MOWING
  | LawnMowerActivity_DOCKED

text \<open>
  The dictionary built by one poll cycle. Its three keys are always
  \<open>"battery_level"\<close>, \<open>"activity"\<close> and \<open>"state"\<close>; a value may be
  Python's \<open>None\<close>.
\<close>

record snapshot =
  battery_level :: "int option"
  activity :: "MowerActivity option"
  state :: "MowerState option"

text \<open>
  The entity classes. \<open>HusqvarnaAutomowerBleEntity\<close> is the shared base;
  the host framework initialises \<open>_attr_available\<close> to \<open>True\<close>.
\<close>

record HusqvarnaAutomowerBleEntity =
  attr_name :: string
  attr_unique_id :: string
  attr_available :: bool

record AutomowerLawnMower = HusqvarnaAutomowerBleEntity +
  attr_supported_features :: nat
  attr_activity :: "LawnMowerActivity option"

record BatterySensor = HusqvarnaAutomowerBleEntity +
  attr_native_value :: "int option"

section \<open>The state mapper\<close>

text \<open>\<open>AutomowerLawnMower.__init__\<close>.\<close>

definition AutomowerLawnMower_init :: "string \<Rightarrow> string \<Rightarrow> nat \<Rightarrow> AutomowerLawnMower" where
  "AutomowerLawnMower_init unique_id name features =
     \<lparr> attr_name = name,
       attr_unique_id = unique_id,
       attr_available = True,
       attr_supported_features = features,
       attr_activity = Some LawnMowerActivity_ERROR \<rparr>"

text \<open>
  \<open>AutomowerLawnMower._get_activity\<close>, as a function of
  \<open>coordinator.data\<close>. A Python tuple membership test is a list membership
  test; when neither activity test of the third branch holds, control falls
  through to the final \<open>return\<close>.
\<close>

definition get_activity :: "snapshot option \<Rightarrow> LawnMowerActivity option" where
  "get_activity coordinator_data =
     (case coordinator_data of
        None \<Rightarrow> None
      | Some d \<Rightarrow>
          (case state d of
             None \<Rightarrow> None
           | Some st \<Rightarrow>
               (case activity d of
                  None \<Rightarrow> None
                | Some act \<Rightarrow>
                    if st = MowerState_PAUSED then Some LawnMowerActivity_PAUSED
                    else if st \<in> set [MowerState_WAIT_FOR_SAFETYPIN, MowerState_STOPPED,
                                       MowerState_FATAL_ERROR, MowerState_ERROR]
                      then Some LawnMowerActivity_ERROR
                    else if st \<in> set [MowerState_PENDING_START, MowerState_IN_OPERATION,
                                       MowerState_RESTRICTED]
                      then (if act \<in> set [MowerActivity_CHARGING, MowerActivity_PARKED]
                              then Some LawnMowerActivity_DOCKED
                            else if act \<in> set [MowerActivity_GOING_OUT, MowerActivity_MOWING,
                                                MowerActivity_GOING_HOME]
                              then Some LawnMowerActivity_MOWING
                            else Some LawnMowerActivity_ERROR)
                    else Some LawnMowerActivity_ERROR)))"

text \<open>
  The decision table of the specification, written from its words: five
  rules tried in order, the first match giving the result.
\<close>

datatype rule_outcome = No_match | Result "LawnMowerActivity option"

definition rule1 :: "MowerState option \<Rightarrow> MowerActivity option \<Rightarrow> rule_outcome" where
  "rule1 st act = (if st = None \<or> act = None then Result None else No_match)"

definition rule2 :: "MowerState option \<Rightarrow> MowerActivity option \<Rightarrow> rule_outcome" where
  "rule2 st act =
     (if st = Some MowerState_PAUSED then Result (Some LawnMowerActivity_PAUSED) else No_match)"

definition rule3 :: "MowerState option \<Rightarrow> MowerActivity option \<Rightarrow> rule_outcome" where
  "rule3 st act =
     (if st \<in> Some ` {MowerState_WAIT_FOR_SAFETYPIN, MowerState_STOPPED,
                       MowerState_FATAL_ERROR, MowerState_ERROR}
      then Result (Some LawnMowerActivity_ERROR) else No_match)"

definition rule4 :: "MowerState option \<Rightarrow> MowerActivity option \<Rightarrow> rule_outcome" where
  "rule4 st act =
     (if st \<in> Some ` {MowerState_PENDING_START, MowerState_IN_OPERATION, MowerState_RESTRICTED}
      then (if act \<in> Some ` {MowerActivity_CHARGING, MowerActivity_PARKED}
              then Result (Some LawnMowerActivity_DOCKED)
            else if act \<in> Some ` {MowerActivity_GOING_OUT, MowerActivity_MOWING,
                                    MowerActivity_GOING_HOME}
              then Result (Some LawnMowerActivity_MOWING)
            else No_match)
      else No_match)"

definition rule5 :: "MowerState option \<Rightarrow> MowerActivity option \<Rightarrow> rule_outcome" where
  "rule5 st act = Result (Some LawnMowerActivity_ERROR)"

fun first_match :: "rule_outcome list \<Rightarrow> LawnMowerActivity option" where
  "first_match [] = None"
| "first_match (No_match # rs) = first_match rs"
| "first_match (Result r # rs) = r"

definition decision_table :: "MowerState option \<Rightarrow> MowerActivity option \<Rightarrow> LawnMowerActivity option" where
  "decision_table st act =
     first_match [rule1 st act, rule2 st act, rule3 st act, rule4 st act, rule5 st act]"

section \<open>The external interfaces\<close>

text \<open>
  The BLE client library, the BLE discovery layer and the host framework are
  not part of the integration: they are parameters of the model. The world
  they act on is a type variable; a call takes the world and returns its
  result with the world it leaves. A read of the client either raises
  \<open>BleakError\<close> or returns a value, possibly \<open>None\<close>;
  \<open>connect\<close> either raises \<open>BleakError\<close> or returns a boolean.
\<close>

type_synonym device = string

datatype 'a read = Raises_BleakError | Returns 'a

record 'w env =
  is_connected :: "'w \<Rightarrow> bool"
  connect :: "device option \<Rightarrow> 'w \<Rightarrow> bool read \<times> 'w"
  disconnect :: "'w \<Rightarrow> 'w"
  get_model :: "'w \<Rightarrow> string \<times> 'w"
  mower_battery_level :: "'w \<Rightarrow> int option read \<times> 'w"
  mower_activity :: "'w \<Rightarrow> MowerActivity option read \<times> 'w"
  mower_state :: "'w \<Rightarrow> MowerState option read \<times> 'w"
  mower_resume :: "'w \<Rightarrow> 'w"
  mower_override :: "'w \<Rightarrow> 'w"
  mower_pause :: "'w \<Rightarrow> 'w"
  mower_park :: "'w \<Rightarrow> 'w"
  close_stale_connections_by_address :: "'w \<Rightarrow> 'w"
  async_ble_device_from_address :: "'w \<Rightarrow> device option"
  get_device :: "'w \<Rightarrow> device option \<times> 'w"

text \<open>
  Every call that leaves the integration is recorded, oldest first, with the
  result it gave.
\<close>

datatype call =
    Close_stale
  | Cache_lookup "device option"
  | Active_scan "device option"
  | Connect "device option" "bool read"
  | Disconnect
  | Get_model
  | Battery_level "int option read"
  | Activity "MowerActivity option read"
  | State "MowerState option read"
  | Resume
  | Override
  | Pause
  | Park
  | Request_refresh
  | Write_ha_state "LawnMowerActivity option"

datatype update_failure = Cant_find_device | Failed_to_connect | Error_getting_data

datatype exn = UpdateFailed update_failure | BleakError | TypeError

text \<open>
  The state the integration runs in: the outside world, the record of calls
  made so far, and \<open>coordinator.data\<close> (\<open>None\<close> until a refresh
  succeeds).
\<close>

record 'w sys =
  world :: 'w
  calls :: "call list"
  data :: "snapshot option"

definition do_close_stale :: "'w env \<Rightarrow> 'w sys \<Rightarrow> 'w sys" where
  "do_close_stale env s =
     s\<lparr> world := close_stale_connections_by_address env (world s),
        calls := calls s @ [Close_stale] \<rparr>"

definition do_cache_lookup :: "'w env \<Rightarrow> 'w sys \<Rightarrow> device option \<times> 'w sys" where
  "do_cache_lookup env s =
     (let d = async_ble_device_from_address env (world s)
      in (d, s\<lparr> calls := calls s @ [Cache_lookup d] \<rparr>))"

definition do_get_device :: "'w env \<Rightarrow> 'w sys \<Rightarrow> device option \<times> 'w sys" where
  "do_get_device env s =
     (case get_device env (world s) of
        (d, w) \<Rightarrow> (d, s\<lparr> world := w, calls := calls s @ [Active_scan d] \<rparr>))"

definition do_connect :: "'w env \<Rightarrow> device option \<Rightarrow> 'w sys \<Rightarrow> bool read \<times> 'w sys" where
  "do_connect env d s =
     (case connect env d (world s) of
        (r, w) \<Rightarrow> (r, s\<lparr> world := w, calls := calls s @ [Connect d r] \<rparr>))"

definition do_disconnect :: "'w env \<Rightarrow> 'w sys \<Rightarrow> 'w sys" where
  "do_disconnect env s =
     s\<lparr> world := disconnect env (world s), calls := calls s @ [Disconnect] \<rparr>"

definition do_get_model :: "'w env \<Rightarrow> 'w sys \<Rightarrow> string \<times> 'w sys" where
  "do_get_model env s =
     (case get_model env (world s) of
        (m, w) \<Rightarrow> (m, s\<lparr> world := w, calls := calls s @ [Get_model] \<rparr>))"

definition do_battery_level :: "'w env \<Rightarrow> 'w sys \<Rightarrow> int option read \<times> 'w sys" where
  "do_battery_level env s =
     (case mower_battery_level env (world s) of
        (r, w) \<Rightarrow> (r, s\<lparr> world := w, calls := calls s @ [Battery_level r] \<rparr>))"

definition do_mower_activity :: "'w env \<Rightarrow> 'w sys \<Rightarrow> MowerActivity option read \<times> 'w sys" where
  "do_mower_activity env s =
     (case mower_activity env (world s) of
        (r, w) \<Rightarrow> (r, s\<lparr> world := w, calls := calls s @ [Activity r] \<rparr>))"

definition do_mower_state :: "'w env \<Rightarrow> 'w sys \<Rightarrow> MowerState option read \<times> 'w sys" where
  "do_mower_state env s =
     (case mower_state env (world s) of
        (r, w) \<Rightarrow> (r, s\<lparr> world := w, calls := calls s @ [State r] \<rparr>))"

definition do_mower_resume :: "'w env \<Rightarrow> 'w sys \<Rightarrow> 'w sys" where
  "do_mower_resume env s =
     s\<lparr> world := mower_resume env (world s), calls := calls s @ [Resume] \<rparr>"

definition do_mower_override :: "'w env \<Rightarrow> 'w sys \<Rightarrow> 'w sys" where
  "do_mower_override env s =
     s\<lparr> world := mower_override env (world s), calls := calls s @ [Override] \<rparr>"

definition do_mower_pause :: "'w env \<Rightarrow> 'w sys \<Rightarrow> 'w sys" where
  "do_mower_pause env s =
     s\<lparr> world := mower_pause env (world s), calls := calls s @ [Pause] \<rparr>"

definition do_mower_park :: "'w env \<Rightarrow> 'w sys \<Rightarrow> 'w sys" where
  "do_mower_park env s =
     s\<lparr> world := mower_park env (world s), calls := calls s @ [Park] \<rparr>"

definition async_write_ha_state :: "LawnMowerActivity option \<Rightarrow> 'w sys \<Rightarrow> 'w sys" where
  "async_write_ha_state a s = s\<lparr> calls := calls s @ [Write_ha_state a] \<rparr>"

section \<open>The reconnect-aware poller\<close>

text \<open>
  \<open>Coordinator._async_find_device\<close>. A device handle has no falsy value,
  so \<open>not device\<close> holds exactly for \<open>None\<close>. Nothing here catches
  a \<open>BleakError\<close> raised by \<open>connect\<close>: it leaves the function.
\<close>

definition async_find_device :: "'w env \<Rightarrow> 'w sys \<Rightarrow> (exn + unit) \<times> 'w sys" where
  "async_find_device env s0 =
     (let s1 = do_close_stale env s0
      in case do_cache_lookup env s1 of
           (device, s2) \<Rightarrow>
             if device = None then (Inl (UpdateFailed Cant_find_device), s2)
             else (case do_connect env device s2 of
                     (Raises_BleakError, s3) \<Rightarrow> (Inl BleakError, s3)
                   | (Returns ok, s3) \<Rightarrow>
                       if \<not> ok then (Inl (UpdateFailed Failed_to_connect), s3)
                       else (Inr (), s3)))"

text \<open>
  The statement repeated after each read that returned \<open>None\<close>, and
  in the exception handler: \<open>await self._async_find_device()\<close>, then
  \<open>raise UpdateFailed("Error getting data from device")\<close>. Whatever
  the reconnect raises, \<open>BleakError\<close> included, is raised in its place.
\<close>

definition find_device_then_fail :: "'w env \<Rightarrow> 'w sys \<Rightarrow> (exn + snapshot) \<times> 'w sys" where
  "find_device_then_fail env s =
     (case async_find_device env s of
        (Inl e, s') \<Rightarrow> (Inl e, s')
      | (Inr _, s') \<Rightarrow> (Inl (UpdateFailed Error_getting_data), s'))"

text \<open>
  The body of the \<open>try\<close> statement of \<open>_async_update_data\<close>: the three
  reads in sequence, each followed by a reconnect when it returned
  \<open>None\<close>. A read that raises leaves the body with \<open>BleakError\<close>,
  and so does a reconnect whose \<open>connect\<close> raises;
  \<open>UpdateFailed\<close> is not a \<open>BleakError\<close>.
\<close>

definition try_body :: "'w env \<Rightarrow> 'w sys \<Rightarrow> (exn + snapshot) \<times> 'w sys" where
  "try_body env s0 =
     (case do_battery_level env s0 of
        (Raises_BleakError, s1) \<Rightarrow> (Inl BleakError, s1)
      | (Returns None, s1) \<Rightarrow> find_device_then_fail env s1
      | (Returns (Some b), s1) \<Rightarrow>
          (case do_mower_activity env s1 of
             (Raises_BleakError, s2) \<Rightarrow> (Inl BleakError, s2)
           | (Returns None, s2) \<Rightarrow> find_device_then_fail env s2
           | (Returns (Some a), s2) \<Rightarrow>
               (case do_mower_state env s2 of
                  (Raises_BleakError, s3) \<Rightarrow> (Inl BleakError, s3)
                | (Returns None, s3) \<Rightarrow> find_device_then_fail env s3
                | (Returns (Some st), s3) \<Rightarrow>
                    (Inr \<lparr> battery_level = Some b, activity = Some a, state = Some st \<rparr>,
                     s3))))"

text \<open>\<open>Coordinator._async_update_data\<close>: one poll cycle.\<close>

definition async_update_data :: "'w env \<Rightarrow> 'w sys \<Rightarrow> (exn + snapshot) \<times> 'w sys" where
  "async_update_data env s0 =
     (case (if \<not> is_connected env (world s0) then async_find_device env s0
            else (Inr (), s0)) of
        (Inl e, s1) \<Rightarrow> (Inl e, s1)
      | (Inr _, s1) \<Rightarrow>
          (case try_body env s1 of
             (Inl BleakError, s2) \<Rightarrow> find_device_then_fail env s2
           | (Inl e, s2) \<Rightarrow> (Inl e, s2)
           | (Inr d, s2) \<Rightarrow>
               if activity d = Some MowerActivity_PARKED \<and> is_connected env (world s2)
               then (Inr d, do_disconnect env s2)
               else (Inr d, s2)))"

text \<open>
  Modelled from the spec: the refresh of the host framework's coordinator
  base class, which is not part of the integration. It runs one poll cycle,
  stores the snapshot in \<open>coordinator.data\<close> when the cycle returns
  one, and keeps the previous data when the cycle raises; a command body
  awaits the refresh it requests, so the refresh has finished when
  \<open>async_request_refresh\<close> returns. The dispatch of the new data to
  the entities' update handlers is the framework's and is left out.
\<close>

definition async_refresh :: "'w env \<Rightarrow> 'w sys \<Rightarrow> 'w sys" where
  "async_refresh env s =
     (case async_update_data env s of
        (Inl e, s') \<Rightarrow> s'
      | (Inr d, s') \<Rightarrow> s'\<lparr> data := Some d \<rparr>)"

definition async_request_refresh :: "'w env \<Rightarrow> 'w sys \<Rightarrow> 'w sys" where
  "async_request_refresh env s = async_refresh env (s\<lparr> calls := calls s @ [Request_refresh] \<rparr>)"

section \<open>The entity adapters\<close>

text \<open>
  \<open>HusqvarnaAutomowerBleEntity.available\<close>: the property both entities
  inherit, overriding the framework's, which would read
  \<open>_attr_available\<close>.
\<close>

definition available :: "'w env \<Rightarrow> 'e HusqvarnaAutomowerBleEntity_scheme \<Rightarrow> 'w sys \<Rightarrow> bool" where
  "available env self s = is_connected env (world s)"

text \<open>\<open>AutomowerLawnMower._handle_coordinator_update\<close>.\<close>

definition handle_coordinator_update ::
  "AutomowerLawnMower \<Rightarrow> 'w sys \<Rightarrow> AutomowerLawnMower \<times> 'w sys" where
  "handle_coordinator_update self s =
     (let self1 = self\<lparr> attr_activity := get_activity (data s) \<rparr>;
          self2 = self1\<lparr> attr_available := (attr_activity self1 \<noteq> None) \<rparr>
      in (self2, async_write_ha_state (attr_activity self2) s))"

text \<open>
  The opening lines of each command, the same in all three: when the client
  is not connected, look the device up and connect. \<open>Inr False\<close>
  stands for the early \<open>return\<close>; a \<open>BleakError\<close> raised by
  \<open>connect\<close> is not caught and leaves the command.
\<close>

definition connect_if_disconnected :: "'w env \<Rightarrow> 'w sys \<Rightarrow> (exn + bool) \<times> 'w sys" where
  "connect_if_disconnected env s0 =
     (if \<not> is_connected env (world s0)
      then (case do_cache_lookup env s0 of
              (device, s1) \<Rightarrow>
                (case do_connect env device s1 of
                   (Raises_BleakError, s2) \<Rightarrow> (Inl BleakError, s2)
                 | (Returns ok, s2) \<Rightarrow> if \<not> ok then (Inr False, s2) else (Inr True, s2)))
      else (Inr True, s0))"

text \<open>
  \<open>AutomowerLawnMower.async_start_mowing\<close>. A command returns the
  entity as it leaves it, or the exception that left it, with the entity
  untouched.
\<close>

definition async_start_mowing ::
  "'w env \<Rightarrow> AutomowerLawnMower \<Rightarrow> 'w sys \<Rightarrow> (exn + AutomowerLawnMower) \<times> 'w sys" where
  "async_start_mowing env self s0 =
     (case connect_if_disconnected env s0 of
        (Inl e, s1) \<Rightarrow> (Inl e, s1)
      | (Inr False, s1) \<Rightarrow> (Inr self, s1)
      | (Inr True, s1) \<Rightarrow>
          (let s2 = do_mower_resume env s1;
               s3 = (if attr_activity self = Some LawnMowerActivity_DOCKED
                     then do_mower_override env s2 else s2);
               s4 = async_request_refresh env s3;
               self' = self\<lparr> attr_activity := get_activity (data s4) \<rparr>
           in (Inr self', async_write_ha_state (attr_activity self') s4)))"

text \<open>\<open>AutomowerLawnMower.async_dock\<close>.\<close>

definition async_dock ::
  "'w env \<Rightarrow> AutomowerLawnMower \<Rightarrow> 'w sys \<Rightarrow> (exn + AutomowerLawnMower) \<times> 'w sys" where
  "async_dock env self s0 =
     (case connect_if_disconnected env s0 of
        (Inl e, s1) \<Rightarrow> (Inl e, s1)
      | (Inr False, s1) \<Rightarrow> (Inr self, s1)
      | (Inr True, s1) \<Rightarrow>
          (let s2 = do_mower_park env s1;
               s3 = async_request_refresh env s2;
               self' = self\<lparr> attr_activity := get_activity (data s3) \<rparr>
           in (Inr self', async_write_ha_state (attr_activity self') s3)))"

text \<open>\<open>AutomowerLawnMower.async_pause\<close>.\<close>

definition async_pause ::
  "'w env \<Rightarrow> AutomowerLawnMower \<Rightarrow> 'w sys \<Rightarrow> (exn + AutomowerLawnMower) \<times> 'w sys" where
  "async_pause env self s0 =
     (case connect_if_disconnected env s0 of
        (Inl e, s1) \<Rightarrow> (Inl e, s1)
      | (Inr False, s1) \<Rightarrow> (Inr self, s1)
      | (Inr True, s1) \<Rightarrow>
          (let s2 = do_mower_pause env s1;
               s3 = async_request_refresh env s2;
               self' = self\<lparr> attr_activity := get_activity (data s3) \<rparr>
           in (Inr self', async_write_ha_state (attr_activity self') s3)))"

text \<open>\<open>BatterySensor.__init__\<close>; no value has been measured yet.\<close>

definition BatterySensor_init :: "string \<Rightarrow> string \<Rightarrow> BatterySensor" where
  "BatterySensor_init unique_id name =
     \<lparr> attr_name = name,
       attr_unique_id = unique_id,
       attr_available = True,
       attr_native_value = None \<rparr>"

text \<open>
  \<open>BatterySensor._handle_coordinator_update\<close>. Subscripting \<open>None\<close>
  and \<open>int(None)\<close> both raise \<open>TypeError\<close>; \<open>int\<close> of an integer is
  that integer. The sensor publishes no activity.
\<close>

definition BatterySensor_handle_coordinator_update ::
  "BatterySensor \<Rightarrow> 'w sys \<Rightarrow> exn + BatterySensor \<times> 'w sys" where
  "BatterySensor_handle_coordinator_update self s =
     (case data s of
        None \<Rightarrow> Inl TypeError
      | Some d \<Rightarrow>
          (case battery_level d of
             None \<Rightarrow> Inl TypeError
           | Some b \<Rightarrow>
               (let self1 = self\<lparr> attr_native_value := Some b \<rparr>;
                    self2 = self1\<lparr> attr_available := (attr_native_value self1 \<noteq> None) \<rparr>
                in Inr (self2, async_write_ha_state None s))))"

section \<open>Entry setup\<close>

text \<open>
  The connection part of \<open>async_setup_entry\<close> of the integration:
  \<open>a or await b\<close> evaluates \<open>b\<close> only when \<open>a\<close> is \<open>None\<close>. The
  creation of the coordinator and the forwarding to the platforms are the
  framework's and leave no call; the first refresh follows them. A
  \<open>BleakError\<close> raised by \<open>connect\<close> leaves the setup.
\<close>

definition async_setup_entry :: "'w env \<Rightarrow> 'w sys \<Rightarrow> (exn + bool) \<times> 'w sys" where
  "async_setup_entry env s0 =
     (let s1 = do_close_stale env s0
      in case do_cache_lookup env s1 of
           (cached, s2) \<Rightarrow>
             (case (if cached \<noteq> None then (cached, s2) else do_get_device env s2) of
                (device, s3) \<Rightarrow>
                  (case do_connect env device s3 of
                     (Raises_BleakError, s4) \<Rightarrow> (Inl BleakError, s4)
                   | (Returns ok, s4) \<Rightarrow>
                       if \<not> ok then (Inr False, s4)
                       else (case do_get_model env s4 of
                               (model, s5) \<Rightarrow> (Inr True, async_refresh env s5)))))"

section \<open>Classifying the recorded calls\<close>

text \<open>A read that returned \<open>None\<close> or raised.\<close>

fun failed_read :: "call \<Rightarrow> bool" where
  "failed_read (Battery_level r) = (r = Raises_BleakError \<or> r = Returns None)"
| "failed_read (Activity r) = (r = Raises_BleakError \<or> r = Returns None)"
| "failed_read (State r) = (r = Raises_BleakError \<or> r = Returns None)"
| "failed_read _ = False"

text \<open>The calls a poll cycle can make.\<close>

fun poll_call :: "call \<Rightarrow> bool" where
  "poll_call Close_stale = True"
| "poll_call (Cache_lookup d) = True"
| "poll_call (Connect d ok) = True"
| "poll_call Disconnect = True"
| "poll_call (Battery_level r) = True"
| "poll_call (Activity r) = True"
| "poll_call (State r) = True"
| "poll_call _ = False"

text \<open>
  The calls a cycle has added to the record: those of the state it ends in,
  without those of the state it started from.
\<close>

definition new_calls :: "'w sys \<Rightarrow> 'w sys \<Rightarrow> call list" where
  "new_calls s s' = drop (length (calls s)) (calls s')"

text \<open>
  A reconnect attempt: stale connections are closed, the device is looked
  up, and \<open>connect\<close> is called with the device when the lookup found
  one. A record of calls is in order when each failed read in it is followed
  at once by such an attempt.
\<close>

fun reconnect_attempt :: "call list \<Rightarrow> bool" where
  "reconnect_attempt (Close_stale # Cache_lookup None # rest) = True"
| "reconnect_attempt (Close_stale # Cache_lookup (Some dev) # Connect d r # rest) =
     (d = Some dev)"
| "reconnect_attempt _ = False"

fun reconnect_follows :: "call list \<Rightarrow> bool" where
  "reconnect_follows [] = True"
| "reconnect_follows (c # cs) =
     ((if failed_read c then reconnect_attempt cs else True) \<and> reconnect_follows cs)"

text \<open>A \<open>connect\<close> call that raised, and a cycle that ended in the update failure.\<close>

fun connect_raised :: "call \<Rightarrow> bool" where
  "connect_raised (Connect d r) = (r = Raises_BleakError)"
| "connect_raised _ = False"

fun update_failed :: "exn + 'a \<Rightarrow> bool" where
  "update_failed (Inl (UpdateFailed m)) = True"
| "update_failed _ = False"

text \<open>
  What \<open>_async_find_device\<close> does from a given world, read off its
  definition: the calls it makes, whether it returns, and the exception
  raised by it or by the \<open>raise\<close> that follows it.
\<close>

definition find_calls :: "'w env \<Rightarrow> 'w \<Rightarrow> call list" where
  "find_calls env w =
     (let w1 = close_stale_connections_by_address env w;
          d = async_ble_device_from_address env w1
      in if d = None then [Close_stale, Cache_lookup d]
         else [Close_stale, Cache_lookup d, Connect d (fst (connect env d w1))])"

definition reconnects :: "'w env \<Rightarrow> 'w \<Rightarrow> bool" where
  "reconnects env w =
     (let w1 = close_stale_connections_by_address env w;
          d = async_ble_device_from_address env w1
      in d \<noteq> None \<and> fst (connect env d w1) = Returns True)"

definition reconnect_exn :: "'w env \<Rightarrow> 'w \<Rightarrow> exn" where
  "reconnect_exn env w =
     (let w1 = close_stale_connections_by_address env w;
          d = async_ble_device_from_address env w1
      in if d = None then UpdateFailed Cant_find_device
         else (case fst (connect env d w1) of
                 Raises_BleakError \<Rightarrow> BleakError
               | Returns ok \<Rightarrow>
                   if ok then UpdateFailed Error_getting_data
                   else UpdateFailed Failed_to_connect))"

text \<open>
  The state in which the reads of a poll cycle begin, when they begin: the
  starting state of a connected handle, the state after the reconnect
  otherwise.
\<close>

definition poll_start :: "'w env \<Rightarrow> 'w sys \<Rightarrow> 'w sys" where
  "poll_start env s =
     (if is_connected env (world s) then s else snd (async_find_device env s))"

text \<open>An active scan for the device.\<close>

fun active_scan :: "call \<Rightarrow> bool" where
  "active_scan (Active_scan d) = True"
| "active_scan _ = False"


section \<open>A simulated device\<close>

text \<open>
  One concrete world for the external interfaces, used to run the model: a
  device that answers each read with a fixed result, is found or not by the
  scan cache and by an active scan, and accepts a connection exactly when a
  device handle is given and pairing works; when the radio is down every
  \<open>connect\<close> raises.
\<close>

record sim =
  sim_connected :: bool
  sim_cache :: "device option"
  sim_scan :: "device option"
  sim_pairs :: bool
  sim_radio_down :: bool
  sim_battery :: "int option read"
  sim_activity :: "MowerActivity option read"
  sim_state :: "MowerState option read"

definition sim_env :: "sim env" where
  "sim_env =
     \<lparr> is_connected = sim_connected,
       connect = (\<lambda>d w. if sim_radio_down w
                         then (Raises_BleakError, w\<lparr> sim_connected := False \<rparr>)
                         else if d \<noteq> None \<and> sim_pairs w
                         then (Returns True, w\<lparr> sim_connected := True \<rparr>)
                         else (Returns False, w\<lparr> sim_connected := False \<rparr>)),
       disconnect = (\<lambda>w. w\<lparr> sim_connected := False \<rparr>),
       get_model = (\<lambda>w. (''305'', w)),
       mower_battery_level = (\<lambda>w. (sim_battery w, w)),
       mower_activity = (\<lambda>w. (sim_activity w, w)),
       mower_state = (\<lambda>w. (sim_state w, w)),
       mower_resume = (\<lambda>w. w),
       mower_override = (\<lambda>w. w),
       mower_pause = (\<lambda>w. w),
       mower_park = (\<lambda>w. w),
       close_stale_connections_by_address = (\<lambda>w. w),
       async_ble_device_from_address = sim_cache,
       get_device = (\<lambda>w. (sim_scan w, w)) \<rparr>"

definition sim_world ::
  "bool \<Rightarrow> device option \<Rightarrow> device option \<Rightarrow> bool \<Rightarrow> int option read
     \<Rightarrow> MowerActivity option read \<Rightarrow> MowerState option read \<Rightarrow> sim sys" where
  "sim_world c cache scan pairs b a st =
     \<lparr> world = \<lparr> sim_connected = c, sim_cache = cache, sim_scan = scan, sim_pairs = pairs,
                 sim_radio_down = False, sim_battery = b, sim_activity = a,
                 sim_state = st \<rparr>,
       calls = [],
       data = None \<rparr>"


text \<open>
  The simulated system after a refresh that found the mower charging in its
  dock; the argument says whether the handle is connected now.
\<close>

definition sim_charging :: "bool \<Rightarrow> sim sys" where
  "sim_charging c =
     (sim_world c (Some ''AA'') None True (Returns (Some 80))
        (Returns (Some MowerActivity_CHARGING)) (Returns (Some MowerState_RESTRICTED)))
     \<lparr> data := Some \<lparr> battery_level = Some 80, activity = Some MowerActivity_CHARGING,
                      state = Some MowerState_RESTRICTED \<rparr> \<rparr>"

section \<open>Properties of the state mapper\<close>

lemma decision_table_absent:
  "decision_table None act = None" "decision_table st None = None"
  by (simp_all add: decision_table_def rule1_def)

lemma decision_table_present:
  "decision_table (Some st) (Some act) =
     (if st = MowerState_PAUSED then Some LawnMowerActivity_PAUSED
      else if st \<in> {MowerState_WAIT_FOR_SAFETYPIN, MowerState_STOPPED,
                     MowerState_FATAL_ERROR, MowerState_ERROR}
        then Some LawnMowerActivity_ERROR
      else if st \<in> {MowerState_PENDING_START, MowerState_IN_OPERATION, MowerState_RESTRICTED}
        then (if act \<in> {MowerActivity_CHARGING, MowerActivity_PARKED}
                then Some LawnMowerActivity_DOCKED
              else if act \<in> {MowerActivity_GOING_OUT, MowerActivity_MOWING,
                               MowerActivity_GOING_HOME}
                then Some LawnMowerActivity_MOWING
              else Some LawnMowerActivity_ERROR)
      else Some LawnMowerActivity_ERROR)"
  by (simp add: decision_table_def rule1_def rule2_def rule3_def rule4_def rule5_def image_iff)

text \<open>
  Claim C1. For every pair of a state and an activity, present or absent, the
  mapper applied to a snapshot holding them returns what the decision table
  of the specification gives, its rules tried in order with the first match
  winning; and with no snapshot at all the mapper returns absent.
\<close>

theorem get_activity_decision_table:
  "get_activity (Some \<lparr> battery_level = b, activity = act, state = st \<rparr>) = decision_table st act
   \<and> get_activity None = None"
proof -
  have "get_activity (Some \<lparr> battery_level = b, activity = act, state = st \<rparr>)
          = decision_table st act"
  proof (cases st)
    case None
    then show ?thesis by (simp add: get_activity_def decision_table_absent)
  next
    case (Some s)
    note st = this
    show ?thesis
    proof (cases act)
      case None
      then show ?thesis by (simp add: get_activity_def st decision_table_absent)
    next
      case (Some a)
      then show ?thesis
        by (simp add: get_activity_def st decision_table_present)
    qed
  qed
  moreover have "get_activity None = None"
    by (simp add: get_activity_def)
  ultimately show ?thesis by simp
qed

section \<open>Properties of the poller\<close>

lemmas do_defs = do_close_stale_def do_cache_lookup_def do_get_device_def do_connect_def
  do_disconnect_def do_get_model_def do_battery_level_def do_mower_activity_def
  do_mower_state_def do_mower_resume_def do_mower_override_def do_mower_pause_def
  do_mower_park_def async_write_ha_state_def


subsection \<open>The calls of a reconnect attempt\<close>



lemma find_calls_attempt:
  "reconnect_attempt (find_calls env w @ cs)"
  "reconnect_attempt (find_calls env w)"
  by (cases "async_ble_device_from_address env (close_stale_connections_by_address env w)";
      simp add: find_calls_def Let_def)+

lemma find_calls_simps:
  "list_all poll_call (find_calls env w)"
  "\<not> list_ex failed_read (find_calls env w)"
  "find_calls env w \<noteq> []"
  "Disconnect \<notin> set (find_calls env w)"
  by (simp_all add: find_calls_def Let_def)

lemma find_calls_follows:
  "reconnect_follows (find_calls env w @ cs) = reconnect_follows cs"
  "reconnect_follows (find_calls env w)"
  by (simp_all add: find_calls_def Let_def)

lemma find_calls_last:
  "last (cs @ find_calls env w) = last (find_calls env w)"
  by (simp add: find_calls_simps)

lemma reconnect_exn_simps:
  "connect_raised (last (find_calls env w)) = (reconnect_exn env w = BleakError)"
  "update_failed (Inl (reconnect_exn env w)) = (reconnect_exn env w \<noteq> BleakError)"
  "reconnect_exn env w \<noteq> TypeError"
  by (simp_all add: find_calls_def reconnect_exn_def Let_def split: read.split)

lemma async_find_device_calls:
  "calls (snd (async_find_device env s)) = calls s @ find_calls env (world s)"
  by (simp add: async_find_device_def find_calls_def do_defs Let_def case_prod_beta
      split: read.split)

lemma async_find_device_data: "data (snd (async_find_device env s)) = data s"
  by (simp add: async_find_device_def do_defs Let_def case_prod_beta split: read.split)

lemma async_find_device_fst:
  "fst (async_find_device env s) =
     (if reconnects env (world s) then Inr ()
      else Inl (reconnect_exn env (world s)))"
  by (simp add: async_find_device_def reconnects_def reconnect_exn_def do_defs Let_def
      case_prod_beta split: read.split)

lemma find_device_then_fail_eq:
  "find_device_then_fail env s =
     (Inl (reconnect_exn env (world s)), snd (async_find_device env s))"
  by (simp add: find_device_then_fail_def case_prod_beta async_find_device_fst
      reconnect_exn_def reconnects_def Let_def split: read.split)


subsection \<open>The calls of a poll cycle\<close>

lemma do_read_calls:
  "calls (snd (do_battery_level env s)) = calls s @ [Battery_level (fst (do_battery_level env s))]"
  "calls (snd (do_mower_activity env s)) = calls s @ [Activity (fst (do_mower_activity env s))]"
  "calls (snd (do_mower_state env s)) = calls s @ [State (fst (do_mower_state env s))]"
  by (simp_all add: do_defs case_prod_beta)

lemma do_read_data:
  "data (snd (do_battery_level env s)) = data s"
  "data (snd (do_mower_activity env s)) = data s"
  "data (snd (do_mower_state env s)) = data s"
  by (simp_all add: do_defs case_prod_beta)

lemma try_body_unfold:
  "try_body env s0 =
     (let r1 = fst (do_battery_level env s0); s1 = snd (do_battery_level env s0);
          r2 = fst (do_mower_activity env s1); s2 = snd (do_mower_activity env s1);
          r3 = fst (do_mower_state env s2); s3 = snd (do_mower_state env s2)
      in case r1 of
           Raises_BleakError \<Rightarrow> (Inl BleakError, s1)
         | Returns None \<Rightarrow> find_device_then_fail env s1
         | Returns (Some b) \<Rightarrow>
             (case r2 of
                Raises_BleakError \<Rightarrow> (Inl BleakError, s2)
              | Returns None \<Rightarrow> find_device_then_fail env s2
              | Returns (Some a) \<Rightarrow>
                  (case r3 of
                     Raises_BleakError \<Rightarrow> (Inl BleakError, s3)
                   | Returns None \<Rightarrow> find_device_then_fail env s3
                   | Returns (Some st) \<Rightarrow>
                       (Inr \<lparr> battery_level = Some b, activity = Some a, state = Some st \<rparr>,
                        s3))))"
  by (simp add: try_body_def Let_def case_prod_beta split: read.split option.split)

lemmas try_unfold = try_body_unfold find_device_then_fail_eq Let_def do_read_calls
  do_read_data new_calls_def async_find_device_calls async_find_device_data find_calls_simps
  find_calls_attempt find_calls_follows find_calls_last reconnect_exn_simps

lemma try_body_calls:
  "calls (snd (try_body env s)) = calls s @ new_calls s (snd (try_body env s))"
  by (simp add: try_unfold split: read.split option.split)

lemma try_body_data: "data (snd (try_body env s)) = data s"
  by (simp add: try_unfold split: read.split option.split)

lemma try_body_poll_calls:
  "list_all poll_call (new_calls s (snd (try_body env s)))"
  "Disconnect \<notin> set (new_calls s (snd (try_body env s)))"
  by (simp_all add: try_unfold split: read.split option.split)

lemma try_body_follows:
  "reconnect_follows (new_calls s (snd (try_body env s)) @ find_calls env w)"
  "fst (try_body env s) \<noteq> Inl BleakError
     \<longrightarrow> reconnect_follows (new_calls s (snd (try_body env s)))"
  by (simp_all add: try_unfold split: read.split option.split)

lemma try_body_outcome:
  "case fst (try_body env s) of
     Inr d \<Rightarrow> \<not> list_ex failed_read (new_calls s (snd (try_body env s)))
   | Inl e \<Rightarrow> list_ex failed_read (new_calls s (snd (try_body env s)))
              \<and> (e \<noteq> BleakError \<longrightarrow>
                    update_failed (Inl e :: exn + snapshot)
                    \<and> \<not> connect_raised (last (new_calls s (snd (try_body env s)))))"
  by (simp add: try_unfold split: read.split option.split)

lemma try_body_first_call:
  "take 1 (new_calls s (snd (try_body env s)))
     = [Battery_level (fst (mower_battery_level env (world s)))]"
  by (simp add: try_unfold do_battery_level_def case_prod_beta
      split: read.split option.split)


subsection \<open>The outcomes of a poll cycle\<close>

lemma poll_start_simps:
  "calls (poll_start env s)
     = calls s @ (if is_connected env (world s) then [] else find_calls env (world s))"
  "data (poll_start env s) = data s"
  by (simp_all add: poll_start_def async_find_device_calls async_find_device_data)

lemma poll_eq:
  "async_update_data env s =
     (if \<not> is_connected env (world s) \<and> \<not> reconnects env (world s)
      then (Inl (reconnect_exn env (world s)), snd (async_find_device env s))
      else (case try_body env (poll_start env s) of
              (Inl BleakError, s2) \<Rightarrow> find_device_then_fail env s2
            | (Inl e, s2) \<Rightarrow> (Inl e, s2)
            | (Inr d, s2) \<Rightarrow>
                if activity d = Some MowerActivity_PARKED \<and> is_connected env (world s2)
                then (Inr d, do_disconnect env s2)
                else (Inr d, s2)))"
proof (cases "is_connected env (world s)")
  case True
  then show ?thesis
    by (simp add: async_update_data_def poll_start_def)
next
  case False
  obtain a s1 where f: "async_find_device env s = (a, s1)"
    by (cases "async_find_device env s")
  with async_find_device_fst [of env s]
  have a: "a = (if reconnects env (world s) then Inr ()
                else Inl (reconnect_exn env (world s)))"
    by simp
  show ?thesis
  proof (cases "reconnects env (world s)")
    case True
    with False f a show ?thesis
      by (simp add: async_update_data_def poll_start_def)
  next
    case no: False
    with False f a show ?thesis
      by (simp add: async_update_data_def poll_start_def)
  qed
qed

lemma poll_cases [consumes 1, case_names abort snapshot caught failed]:
  assumes "async_update_data env s = (r, s')"
  obtains
    (abort) "\<not> is_connected env (world s)" "\<not> reconnects env (world s)"
      "r = Inl (reconnect_exn env (world s))" "s' = snd (async_find_device env s)"
  | (snapshot) d s2 where "try_body env (poll_start env s) = (Inr d, s2)" "r = Inr d"
      "s' = (if activity d = Some MowerActivity_PARKED \<and> is_connected env (world s2)
             then do_disconnect env s2 else s2)"
  | (caught) s2 where "try_body env (poll_start env s) = (Inl BleakError, s2)"
      "r = Inl (reconnect_exn env (world s2))" "s' = snd (async_find_device env s2)"
  | (failed) e s2 where "try_body env (poll_start env s) = (Inl e, s2)" "e \<noteq> BleakError"
      "r = Inl e" "s' = s2"
proof -
  let ?tail = "case try_body env (poll_start env s) of
              (Inl BleakError, s2) \<Rightarrow> find_device_then_fail env s2
            | (Inl e, s2) \<Rightarrow> (Inl e, s2)
            | (Inr d, s2) \<Rightarrow>
                if activity d = Some MowerActivity_PARKED \<and> is_connected env (world s2)
                then (Inr d, do_disconnect env s2)
                else (Inr d, s2)"
  show ?thesis
  proof (cases "\<not> is_connected env (world s) \<and> \<not> reconnects env (world s)")
    case True
    with assms poll_eq [of env s]
    have "r = Inl (reconnect_exn env (world s))" "s' = snd (async_find_device env s)"
      by simp_all
    with True show ?thesis
      by (intro abort) simp_all
  next
    case False
    with assms poll_eq [of env s] have run: "?tail = (r, s')"
      by simp
    obtain rt s2 where t: "try_body env (poll_start env s) = (rt, s2)"
      by (cases "try_body env (poll_start env s)")
    show ?thesis
    proof (cases rt)
      case (Inr d)
      with run t have "r = Inr d"
        "s' = (if activity d = Some MowerActivity_PARKED \<and> is_connected env (world s2)
               then do_disconnect env s2 else s2)"
        by (auto split: if_splits)
      with t Inr show ?thesis
        by (intro snapshot [of d s2]) simp_all
    next
      case (Inl e)
      show ?thesis
      proof (cases e)
        case BleakError
        with run t Inl have "r = Inl (reconnect_exn env (world s2))"
          "s' = snd (async_find_device env s2)"
          by (simp_all add: find_device_then_fail_eq)
        with t Inl BleakError show ?thesis
          by (intro caught [of s2]) simp_all
      next
        case (UpdateFailed m)
        with run t Inl have "r = Inl e" "s' = s2"
          by simp_all
        with t Inl UpdateFailed show ?thesis
          by (intro failed [of e s2]) simp_all
      next
        case TypeError
        with run t Inl have "r = Inl e" "s' = s2"
          by simp_all
        with t Inl TypeError show ?thesis
          by (intro failed [of e s2]) simp_all
      qed
    qed
  qed
qed


lemma try_from_start:
  assumes "try_body env (poll_start env s) = (rt, s2)"
  shows "calls s2 = calls s @ (if is_connected env (world s) then []
                               else find_calls env (world s))
                    @ new_calls (poll_start env s) s2"
    and "data s2 = data s"
    and "list_all poll_call (new_calls (poll_start env s) s2)"
    and "Disconnect \<notin> set (new_calls (poll_start env s) s2)"
    and "reconnect_follows (new_calls (poll_start env s) s2 @ find_calls env w)"
    and "rt \<noteq> Inl BleakError \<Longrightarrow> reconnect_follows (new_calls (poll_start env s) s2)"
    and "\<not> isl rt \<Longrightarrow> \<not> list_ex failed_read (new_calls (poll_start env s) s2)"
    and "isl rt \<Longrightarrow> list_ex failed_read (new_calls (poll_start env s) s2)"
    and "rt = Inl e \<Longrightarrow> e \<noteq> BleakError \<Longrightarrow>
           update_failed (Inl e :: exn + snapshot)
           \<and> \<not> connect_raised (last (new_calls (poll_start env s) s2))"
    and "take 1 (new_calls (poll_start env s) s2)
           = [Battery_level (fst (mower_battery_level env (world (poll_start env s))))]"
proof -
  from assms have f: "fst (try_body env (poll_start env s)) = rt"
    and n: "snd (try_body env (poll_start env s)) = s2"
    by simp_all
  from try_body_calls [where s = "poll_start env s" and env = env] n
  show "calls s2 = calls s @ (if is_connected env (world s) then []
                               else find_calls env (world s))
                    @ new_calls (poll_start env s) s2"
    by (simp add: poll_start_simps)
  from try_body_data [where s = "poll_start env s" and env = env] n show "data s2 = data s"
    by (simp add: poll_start_simps)
  from try_body_poll_calls [where s = "poll_start env s" and env = env] n
  show "list_all poll_call (new_calls (poll_start env s) s2)"
    and "Disconnect \<notin> set (new_calls (poll_start env s) s2)"
    by simp_all
  from try_body_follows(1) [where s = "poll_start env s" and env = env and w = w] n
  show "reconnect_follows (new_calls (poll_start env s) s2 @ find_calls env w)"
    by simp
  from try_body_follows(2) [where s = "poll_start env s" and env = env] n f
  show "rt \<noteq> Inl BleakError \<Longrightarrow> reconnect_follows (new_calls (poll_start env s) s2)"
    by simp
  from try_body_outcome [where s = "poll_start env s" and env = env] n f
  show "\<not> isl rt \<Longrightarrow> \<not> list_ex failed_read (new_calls (poll_start env s) s2)"
    and "isl rt \<Longrightarrow> list_ex failed_read (new_calls (poll_start env s) s2)"
    and "rt = Inl e \<Longrightarrow> e \<noteq> BleakError \<Longrightarrow>
           update_failed (Inl e :: exn + snapshot)
           \<and> \<not> connect_raised (last (new_calls (poll_start env s) s2))"
    by (cases rt; simp)+
  from try_body_first_call [where s = "poll_start env s" and env = env] n
  show "take 1 (new_calls (poll_start env s) s2)
           = [Battery_level (fst (mower_battery_level env (world (poll_start env s))))]"
    by simp
qed


lemma new_callsI: "calls s' = calls s @ cs \<Longrightarrow> new_calls s s' = cs"
  by (simp add: new_calls_def)

lemma poll_trace [consumes 1, case_names abort snapshot caught failed]:
  assumes "async_update_data env s = (r, s')"
  obtains
    (abort) "\<not> is_connected env (world s)" "\<not> reconnects env (world s)"
      "r = Inl (reconnect_exn env (world s))"
      "new_calls s s' = find_calls env (world s)"
  | (snapshot) d s2 where "try_body env (poll_start env s) = (Inr d, s2)" "r = Inr d"
      "new_calls s s'
         = (if is_connected env (world s) then [] else find_calls env (world s))
           @ new_calls (poll_start env s) s2
           @ (if activity d = Some MowerActivity_PARKED \<and> is_connected env (world s2)
              then [Disconnect] else [])"
  | (caught) s2 where "try_body env (poll_start env s) = (Inl BleakError, s2)"
      "r = Inl (reconnect_exn env (world s2))"
      "new_calls s s'
         = (if is_connected env (world s) then [] else find_calls env (world s))
           @ new_calls (poll_start env s) s2 @ find_calls env (world s2)"
  | (failed) e s2 where "try_body env (poll_start env s) = (Inl e, s2)" "e \<noteq> BleakError"
      "r = Inl e"
      "new_calls s s'
         = (if is_connected env (world s) then [] else find_calls env (world s))
           @ new_calls (poll_start env s) s2"
  using assms
proof (cases rule: poll_cases)
  case abort
  then have "new_calls s s' = find_calls env (world s)"
    by (intro new_callsI) (simp add: async_find_device_calls)
  with abort that(1) show ?thesis by simp
next
  case (snapshot d s2)
  with try_from_start(1) [OF snapshot(1)]
  have "new_calls s s'
         = (if is_connected env (world s) then [] else find_calls env (world s))
           @ new_calls (poll_start env s) s2
           @ (if activity d = Some MowerActivity_PARKED \<and> is_connected env (world s2)
              then [Disconnect] else [])"
    by (intro new_callsI) (simp add: do_disconnect_def)
  with snapshot that(2) [of d s2] show ?thesis by simp
next
  case (caught s2)
  with try_from_start(1) [OF caught(1)]
  have "new_calls s s'
         = (if is_connected env (world s) then [] else find_calls env (world s))
           @ new_calls (poll_start env s) s2 @ find_calls env (world s2)"
    by (intro new_callsI) (simp add: async_find_device_calls)
  with caught that(3) [of s2] show ?thesis by simp
next
  case (failed e s2)
  with try_from_start(1) [OF failed(1)]
  have "new_calls s s'
         = (if is_connected env (world s) then [] else find_calls env (world s))
           @ new_calls (poll_start env s) s2"
    by (intro new_callsI) simp
  with failed that(4) [of e s2] show ?thesis by simp
qed


lemma poll_calls:
  assumes "async_update_data env s = (r, s')"
  shows "calls s' = calls s @ new_calls s s'"
  using assms
proof (cases rule: poll_cases)
  case abort
  then have "calls s' = calls s @ find_calls env (world s)"
    by (simp add: async_find_device_calls)
  then show ?thesis by (simp add: new_calls_def)
next
  case (snapshot d s2)
  with try_from_start(1) [OF snapshot(1)]
  have "calls s' = calls s
          @ ((if is_connected env (world s) then [] else find_calls env (world s))
             @ new_calls (poll_start env s) s2
             @ (if activity d = Some MowerActivity_PARKED \<and> is_connected env (world s2)
                then [Disconnect] else []))"
    by (simp add: do_disconnect_def)
  then show ?thesis by (simp only: new_callsI)
next
  case (caught s2)
  with try_from_start(1) [OF caught(1)]
  have "calls s' = calls s
          @ ((if is_connected env (world s) then [] else find_calls env (world s))
             @ new_calls (poll_start env s) s2 @ find_calls env (world s2))"
    by (simp add: async_find_device_calls)
  then show ?thesis by (simp only: new_callsI)
next
  case (failed e s2)
  with try_from_start(1) [OF failed(1)]
  have "calls s' = calls s
          @ ((if is_connected env (world s) then [] else find_calls env (world s))
             @ new_calls (poll_start env s) s2)"
    by simp
  then show ?thesis by (simp only: new_callsI)
qed


lemma poll_poll_calls:
  assumes "async_update_data env s = (r, s')"
  shows "list_all poll_call (new_calls s s')"
  using assms
proof (cases rule: poll_trace)
  case abort
  then show ?thesis by (simp add: find_calls_simps)
next
  case (snapshot d s2)
  with try_from_start(3) [OF snapshot(1)] show ?thesis by (simp add: find_calls_simps)
next
  case (caught s2)
  with try_from_start(3) [OF caught(1)] show ?thesis by (simp add: find_calls_simps)
next
  case (failed e s2)
  with try_from_start(3) [OF failed(1)] show ?thesis by (simp add: find_calls_simps)
qed





subsection \<open>A cycle that starts disconnected\<close>






subsection \<open>The claims about the poller\<close>










section \<open>Properties of the entity adapters\<close>

subsection \<open>The calls of a command\<close>

lemma poll_run:
  "async_update_data env s = (fst (async_update_data env s), snd (async_update_data env s))"
  by simp

lemma connect_if_disconnected_unfold:
  "connect_if_disconnected env s =
     (if \<not> is_connected env (world s)
      then (case fst (connect env (async_ble_device_from_address env (world s)) (world s)) of
              Raises_BleakError \<Rightarrow> Inl BleakError
            | Returns ok \<Rightarrow> Inr ok,
            s\<lparr> world := snd (connect env (async_ble_device_from_address env (world s)) (world s)),
               calls := calls s @ [Cache_lookup (async_ble_device_from_address env (world s)),
                                   Connect (async_ble_device_from_address env (world s))
                                     (fst (connect env (async_ble_device_from_address env (world s))
                                             (world s)))] \<rparr>)
      else (Inr True, s))"
  by (simp add: connect_if_disconnected_def do_defs Let_def case_prod_beta split: read.split)

lemma request_refresh_calls:
  "calls (async_request_refresh env s)
     = calls s @ Request_refresh
         # new_calls (s\<lparr> calls := calls s @ [Request_refresh] \<rparr>)
             (snd (async_update_data env (s\<lparr> calls := calls s @ [Request_refresh] \<rparr>)))"
  using poll_calls [OF poll_run [of env "s\<lparr> calls := calls s @ [Request_refresh] \<rparr>"]]
  by (simp add: async_request_refresh_def async_refresh_def case_prod_beta split: sum.split)




lemma command_tail_calls:
  "calls (async_write_ha_state a (async_request_refresh env s3))
     = calls s3 @ Request_refresh
         # new_calls (s3\<lparr> calls := calls s3 @ [Request_refresh] \<rparr>)
             (snd (async_update_data env (s3\<lparr> calls := calls s3 @ [Request_refresh] \<rparr>)))
         @ [Write_ha_state a]"
  by (simp add: async_write_ha_state_def request_refresh_calls)

lemma poll_call_not_active_scan: "list_all poll_call cs \<Longrightarrow> \<not> list_ex active_scan cs"
  by (induction cs) (auto elim: poll_call.elims)

lemma async_start_mowing_connected:
  assumes "connect_if_disconnected env s = (Inr True, s1)"
  shows "async_start_mowing env self s =
      (Inr (self\<lparr> attr_activity := get_activity (data (async_request_refresh env
          (if attr_activity self = Some LawnMowerActivity_DOCKED
            then do_mower_override env (do_mower_resume env s1)
            else do_mower_resume env s1))) \<rparr>),
       async_write_ha_state (get_activity (data (async_request_refresh env
          (if attr_activity self = Some LawnMowerActivity_DOCKED
            then do_mower_override env (do_mower_resume env s1)
            else do_mower_resume env s1))))
         (async_request_refresh env
          (if attr_activity self = Some LawnMowerActivity_DOCKED
            then do_mower_override env (do_mower_resume env s1)
            else do_mower_resume env s1)))"
  using assms by (simp add: async_start_mowing_def Let_def)

lemma async_dock_connected:
  assumes "connect_if_disconnected env s = (Inr True, s1)"
  shows "async_dock env self s =
      (Inr (self\<lparr> attr_activity := get_activity (data (async_request_refresh env
                 (do_mower_park env s1))) \<rparr>),
       async_write_ha_state (get_activity (data (async_request_refresh env
                 (do_mower_park env s1))))
         (async_request_refresh env (do_mower_park env s1)))"
  using assms by (simp add: async_dock_def Let_def)

lemma async_pause_connected:
  assumes "connect_if_disconnected env s = (Inr True, s1)"
  shows "async_pause env self s =
      (Inr (self\<lparr> attr_activity := get_activity (data (async_request_refresh env
                 (do_mower_pause env s1))) \<rparr>),
       async_write_ha_state (get_activity (data (async_request_refresh env
                 (do_mower_pause env s1))))
         (async_request_refresh env (do_mower_pause env s1)))"
  using assms by (simp add: async_pause_def Let_def)

lemma protocol_calls:
  "calls (if attr_activity self = Some LawnMowerActivity_DOCKED
          then do_mower_override env (do_mower_resume env s1)
          else do_mower_resume env s1)
     = calls s1 @ Resume # (if attr_activity self = Some LawnMowerActivity_DOCKED
                            then [Override] else [])"
  "calls (do_mower_park env s1) = calls s1 @ [Park]"
  "calls (do_mower_pause env s1) = calls s1 @ [Pause]"
  by (simp_all add: do_defs)

lemma command_tail_no_scan:
  assumes "calls s3 = calls s @ pre" and "\<not> list_ex active_scan pre"
  shows "\<exists>rest. calls (async_write_ha_state a (async_request_refresh env s3))
                  = calls s @ pre @ rest \<and> \<not> list_ex active_scan rest"
proof -
  let ?s = "s3\<lparr> calls := calls s3 @ [Request_refresh] \<rparr>"
  let ?N = "new_calls ?s (snd (async_update_data env ?s))"
  have "\<not> list_ex active_scan ?N"
    using poll_poll_calls [OF poll_run [of env ?s]] by (rule poll_call_not_active_scan)
  then have "\<not> list_ex active_scan (Request_refresh # ?N @ [Write_ha_state a])"
    by simp
  moreover have "calls (async_write_ha_state a (async_request_refresh env s3))
      = calls s @ pre @ (Request_refresh # ?N @ [Write_ha_state a])"
    using assms(1) by (simp add: command_tail_calls)
  ultimately show ?thesis by blast
qed

lemma connect_if_disconnected_calls:
  assumes "\<not> is_connected env (world s)"
  shows "calls (snd (connect_if_disconnected env s))
     = calls s @ [Cache_lookup (async_ble_device_from_address env (world s)),
                  Connect (async_ble_device_from_address env (world s))
                    (fst (connect env (async_ble_device_from_address env (world s)) (world s)))]"
  using assms by (simp add: connect_if_disconnected_unfold)

lemma command_lookup:
  fixes res :: "(exn + AutomowerLawnMower) \<times> 'w sys"
  assumes off: "\<not> is_connected env (world s)"
    and raised: "\<And>e s1. connect_if_disconnected env s = (Inl e, s1) \<Longrightarrow> snd res = s1"
    and refused: "\<And>s1. connect_if_disconnected env s = (Inr False, s1) \<Longrightarrow> snd res = s1"
    and passed: "\<And>s1. connect_if_disconnected env s = (Inr True, s1) \<Longrightarrow>
                   \<exists>s3 a pre. snd res = async_write_ha_state a (async_request_refresh env s3)
                     \<and> calls s3 = calls s1 @ pre \<and> \<not> list_ex active_scan pre"
  shows "\<exists>rest. calls (snd res)
           = calls s @ Cache_lookup (async_ble_device_from_address env (world s))
               # Connect (async_ble_device_from_address env (world s))
                   (fst (connect env (async_ble_device_from_address env (world s)) (world s)))
               # rest
           \<and> \<not> list_ex active_scan rest"
proof -
  let ?s1 = "snd (connect_if_disconnected env s)"
  let ?lookup = "[Cache_lookup (async_ble_device_from_address env (world s)),
               Connect (async_ble_device_from_address env (world s))
                 (fst (connect env (async_ble_device_from_address env (world s)) (world s)))]"
  have run: "connect_if_disconnected env s = (fst (connect_if_disconnected env s), ?s1)"
    by simp
  show ?thesis
  proof (cases "fst (connect_if_disconnected env s)")
    case (Inl e)
    with run have "connect_if_disconnected env s = (Inl e, ?s1)"
      by simp
    then have "snd res = ?s1"
      by (rule raised)
    with connect_if_disconnected_calls [OF off] show ?thesis by simp
  next
    case (Inr ok)
    show ?thesis
    proof (cases ok)
      case False
      with run Inr have "connect_if_disconnected env s = (Inr False, ?s1)"
        by simp
      then have "snd res = ?s1"
        by (rule refused)
      with connect_if_disconnected_calls [OF off] show ?thesis by simp
    next
      case True
      with run Inr have "connect_if_disconnected env s = (Inr True, ?s1)"
        by simp
      then obtain s3 a pre where
        res: "snd res = async_write_ha_state a (async_request_refresh env s3)"
        and s3: "calls s3 = calls ?s1 @ pre" and pre: "\<not> list_ex active_scan pre"
        using passed by blast
      from s3 connect_if_disconnected_calls [OF off]
      have "calls s3 = calls s @ (?lookup @ pre)"
        by simp
      moreover from pre have "\<not> list_ex active_scan (?lookup @ pre)"
        by simp
      ultimately obtain rest where
        "calls (async_write_ha_state a (async_request_refresh env s3))
           = calls s @ (?lookup @ pre) @ rest"
        "\<not> list_ex active_scan rest"
        using command_tail_no_scan by blast
      with res pre show ?thesis by simp
    qed
  qed
qed

lemma start_lookup:
  assumes "\<not> is_connected env (world s)"
  shows "\<exists>rest. calls (snd (async_start_mowing env self s))
           = calls s @ Cache_lookup (async_ble_device_from_address env (world s))
               # Connect (async_ble_device_from_address env (world s))
                   (fst (connect env (async_ble_device_from_address env (world s)) (world s)))
               # rest
           \<and> \<not> list_ex active_scan rest"
proof (rule command_lookup [OF assms])
  fix e s1 assume "connect_if_disconnected env s = (Inl e, s1)"
  then show "snd (async_start_mowing env self s) = s1"
    by (simp add: async_start_mowing_def)
next
  fix s1 assume "connect_if_disconnected env s = (Inr False, s1)"
  then show "snd (async_start_mowing env self s) = s1"
    by (simp add: async_start_mowing_def)
next
  fix s1 assume c: "connect_if_disconnected env s = (Inr True, s1)"
  have "\<not> list_ex active_scan
          (Resume # (if attr_activity self = Some LawnMowerActivity_DOCKED
                     then [Override] else []))"
    by simp
  with protocol_calls(1) [of self env s1]
  show "\<exists>s3 a pre. snd (async_start_mowing env self s)
            = async_write_ha_state a (async_request_refresh env s3)
          \<and> calls s3 = calls s1 @ pre \<and> \<not> list_ex active_scan pre"
    unfolding async_start_mowing_connected [OF c] snd_conv by blast
qed

lemma dock_lookup:
  assumes "\<not> is_connected env (world s)"
  shows "\<exists>rest. calls (snd (async_dock env self s))
           = calls s @ Cache_lookup (async_ble_device_from_address env (world s))
               # Connect (async_ble_device_from_address env (world s))
                   (fst (connect env (async_ble_device_from_address env (world s)) (world s)))
               # rest
           \<and> \<not> list_ex active_scan rest"
proof (rule command_lookup [OF assms])
  fix e s1 assume "connect_if_disconnected env s = (Inl e, s1)"
  then show "snd (async_dock env self s) = s1"
    by (simp add: async_dock_def)
next
  fix s1 assume "connect_if_disconnected env s = (Inr False, s1)"
  then show "snd (async_dock env self s) = s1"
    by (simp add: async_dock_def)
next
  fix s1 assume c: "connect_if_disconnected env s = (Inr True, s1)"
  have "\<not> list_ex active_scan [Park]"
    by simp
  with protocol_calls(2) [of env s1]
  show "\<exists>s3 a pre. snd (async_dock env self s)
            = async_write_ha_state a (async_request_refresh env s3)
          \<and> calls s3 = calls s1 @ pre \<and> \<not> list_ex active_scan pre"
    unfolding async_dock_connected [OF c] snd_conv by blast
qed

lemma pause_lookup:
  assumes "\<not> is_connected env (world s)"
  shows "\<exists>rest. calls (snd (async_pause env self s))
           = calls s @ Cache_lookup (async_ble_device_from_address env (world s))
               # Connect (async_ble_device_from_address env (world s))
                   (fst (connect env (async_ble_device_from_address env (world s)) (world s)))
               # rest
           \<and> \<not> list_ex active_scan rest"
proof (rule command_lookup [OF assms])
  fix e s1 assume "connect_if_disconnected env s = (Inl e, s1)"
  then show "snd (async_pause env self s) = s1"
    by (simp add: async_pause_def)
next
  fix s1 assume "connect_if_disconnected env s = (Inr False, s1)"
  then show "snd (async_pause env self s) = s1"
    by (simp add: async_pause_def)
next
  fix s1 assume c: "connect_if_disconnected env s = (Inr True, s1)"
  have "\<not> list_ex active_scan [Pause]"
    by simp
  with protocol_calls(3) [of env s1]
  show "\<exists>s3 a pre. snd (async_pause env self s)
            = async_write_ha_state a (async_request_refresh env s3)
          \<and> calls s3 = calls s1 @ pre \<and> \<not> list_ex active_scan pre"
    unfolding async_pause_connected [OF c] snd_conv by blast
qed

lemma async_refresh_calls:
  "calls (async_refresh env s) = calls s @ new_calls s (snd (async_update_data env s))"
  using poll_calls [OF poll_run [of env s]]
  by (simp add: async_refresh_def case_prod_beta split: sum.split)

lemma setup_scans:
  assumes "async_ble_device_from_address env
             (close_stale_connections_by_address env (world s)) = None"
  shows "take 4 (new_calls s (snd (async_setup_entry env s)))
     = [Close_stale, Cache_lookup None,
        Active_scan (fst (get_device env (close_stale_connections_by_address env (world s)))),
        Connect (fst (get_device env (close_stale_connections_by_address env (world s))))
          (fst (connect env
                 (fst (get_device env (close_stale_connections_by_address env (world s))))
                 (snd (get_device env (close_stale_connections_by_address env (world s))))))]"
  using assms
  by (simp add: async_setup_entry_def do_defs Let_def case_prod_beta async_refresh_calls
      new_calls_def [of s] split: read.split)

subsection \<open>The claims about the entities\<close>

text \<open>
  Claim C10. Right after construction the lawn mower entity's presentation
  activity is ERROR, although the mapper gives absent when there is no
  snapshot; the first coordinator update replaces it with the mapper's
  output for the coordinator's data.
\<close>

theorem initial_activity_is_error:
  "attr_activity (AutomowerLawnMower_init unique_id name features) = Some LawnMowerActivity_ERROR
   \<and> get_activity None = None
   \<and> attr_activity (fst (handle_coordinator_update
                            (AutomowerLawnMower_init unique_id name features) s))
       = get_activity (data s)"
  by (simp add: AutomowerLawnMower_init_def get_activity_def handle_coordinator_update_def)

text \<open>
  Claim C7. Whenever the connection handle is disconnected, the lawn mower
  entity and the battery sensor report themselves unavailable, whatever the
  coordinator's data and whatever their update handlers stored in
  \<open>_attr_available\<close>.
\<close>

theorem unavailable_while_disconnected:
  assumes "\<not> is_connected env (world s)"
  shows "\<not> available env (fst (handle_coordinator_update mower s))
             (snd (handle_coordinator_update mower s))
         \<and> (BatterySensor_handle_coordinator_update sensor s = Inr (sensor', s')
              \<longrightarrow> \<not> available env sensor' s')"
  using assms
  by (auto simp: available_def handle_coordinator_update_def async_write_ha_state_def
      BatterySensor_handle_coordinator_update_def Let_def split: option.splits)

theorem unavailable_while_disconnected_witness:
  "\<not> is_connected sim_env (world (sim_charging False))
   \<and> fst (handle_coordinator_update (AutomowerLawnMower_init ''id'' ''Automower'' 7)
            (sim_charging False))
       = (AutomowerLawnMower_init ''id'' ''Automower'' 7)
           \<lparr> attr_available := True, attr_activity := Some LawnMowerActivity_DOCKED \<rparr>
   \<and> \<not> available sim_env
         (fst (handle_coordinator_update (AutomowerLawnMower_init ''id'' ''Automower'' 7)
                 (sim_charging False)))
         (snd (handle_coordinator_update (AutomowerLawnMower_init ''id'' ''Automower'' 7)
                 (sim_charging False)))
   \<and> BatterySensor_handle_coordinator_update
        (BatterySensor_init ''id_battery_level'' ''Battery Level'') (sim_charging False)
       = Inr ((BatterySensor_init ''id_battery_level'' ''Battery Level'')
                \<lparr> attr_available := True, attr_native_value := Some 80 \<rparr>,
              async_write_ha_state None (sim_charging False))
   \<and> \<not> available sim_env
         ((BatterySensor_init ''id_battery_level'' ''Battery Level'')
            \<lparr> attr_available := True, attr_native_value := Some 80 \<rparr>)
         (async_write_ha_state None (sim_charging False))"
proof -
  let ?mower = "AutomowerLawnMower_init ''id'' ''Automower'' 7"
  let ?sensor = "BatterySensor_init ''id_battery_level'' ''Battery Level''"
  have off: "\<not> is_connected sim_env (world (sim_charging False))"
    by (simp add: sim_env_def sim_world_def sim_charging_def)
  have sensor: "BatterySensor_handle_coordinator_update ?sensor (sim_charging False)
      = Inr (?sensor \<lparr> attr_available := True, attr_native_value := Some 80 \<rparr>,
             async_write_ha_state None (sim_charging False))"
    by (simp add: BatterySensor_handle_coordinator_update_def sim_world_def sim_charging_def
        BatterySensor_init_def)
  have mower: "fst (handle_coordinator_update ?mower (sim_charging False))
      = ?mower \<lparr> attr_available := True, attr_activity := Some LawnMowerActivity_DOCKED \<rparr>"
    by (simp add: handle_coordinator_update_def get_activity_def sim_world_def
        sim_charging_def AutomowerLawnMower_init_def)
  from unavailable_while_disconnected [OF off, of ?mower ?sensor
      "?sensor \<lparr> attr_available := True, attr_native_value := Some 80 \<rparr>"
      "async_write_ha_state None (sim_charging False)"] sensor off mower
  show ?thesis by simp
qed

text \<open>
  Claim C8. The battery sensor's update handler raises when the coordinator
  has no data or the battery field is absent, instead of marking the sensor
  unavailable; and whenever it returns, the availability flag it stored is
  true.
\<close>

theorem battery_handler_unguarded:
  "(data s = None \<or> (\<exists>d. data s = Some d \<and> battery_level d = None)
      \<longrightarrow> BatterySensor_handle_coordinator_update sensor s = Inl TypeError)
   \<and> (BatterySensor_handle_coordinator_update sensor s = Inr (sensor', s')
      \<longrightarrow> attr_available sensor' \<and> attr_native_value sensor' \<noteq> None)"
  by (auto simp: BatterySensor_handle_coordinator_update_def Let_def split: option.splits)

theorem battery_handler_unguarded_witness:
  "data (sim_world True None None False (Returns None) (Returns None) (Returns None)) = None
   \<and> BatterySensor_handle_coordinator_update
        (BatterySensor_init ''id_battery_level'' ''Battery Level'')
        (sim_world True None None False (Returns None) (Returns None) (Returns None))
       = Inl TypeError
   \<and> BatterySensor_handle_coordinator_update
        (BatterySensor_init ''id_battery_level'' ''Battery Level'') (sim_charging True)
       = Inr ((BatterySensor_init ''id_battery_level'' ''Battery Level'')
                \<lparr> attr_available := True, attr_native_value := Some 80 \<rparr>,
              async_write_ha_state None (sim_charging True))
   \<and> attr_available ((BatterySensor_init ''id_battery_level'' ''Battery Level'')
                       \<lparr> attr_available := True, attr_native_value := Some 80 \<rparr>)"
proof -
  let ?s0 = "sim_world True None None False (Returns None) (Returns None) (Returns None)"
  let ?sensor = "BatterySensor_init ''id_battery_level'' ''Battery Level''"
  have none: "data ?s0 = None"
    by (simp add: sim_world_def)
  have run: "BatterySensor_handle_coordinator_update ?sensor (sim_charging True)
       = Inr (?sensor \<lparr> attr_available := True, attr_native_value := Some 80 \<rparr>,
              async_write_ha_state None (sim_charging True))"
    by (simp add: BatterySensor_handle_coordinator_update_def sim_world_def sim_charging_def
        BatterySensor_init_def)
  from battery_handler_unguarded [of ?s0 ?sensor]
       battery_handler_unguarded [of "sim_charging True" ?sensor
         "?sensor \<lparr> attr_available := True, attr_native_value := Some 80 \<rparr>"
         "async_write_ha_state None (sim_charging True)"]
       none run
  show ?thesis by simp
qed

lemma command_leaves_when_connect_raises:
  assumes "\<not> is_connected env (world s)"
    and "fst (connect env (async_ble_device_from_address env (world s)) (world s))
           = Raises_BleakError"
  shows "let d = async_ble_device_from_address env (world s);
             s' = s\<lparr> world := snd (connect env d (world s)),
                     calls := calls s @ [Cache_lookup d, Connect d Raises_BleakError] \<rparr>
         in async_start_mowing env self s = (Inl BleakError, s')
            \<and> async_dock env self s = (Inl BleakError, s')
            \<and> async_pause env self s = (Inl BleakError, s')"
  using assms
  by (simp add: async_start_mowing_def async_dock_def async_pause_def
      connect_if_disconnected_unfold Let_def)






text \<open>
  Claim C9. A command invoked while the handle is disconnected looks the
  device up in the scan cache and passes the result, present or absent, to
  the client's connect call at once; none of its later calls is an active
  scan. Entry setup, when its cache lookup returns absent, does scan before
  it connects.
\<close>

theorem command_lookup_cache_only:
  assumes "\<not> is_connected env (world s)"
  shows "let d = async_ble_device_from_address env (world s);
             ok = fst (connect env d (world s));
             w1 = close_stale_connections_by_address env (world s);
             found = fst (get_device env w1)
         in (\<exists>rest. calls (snd (async_start_mowing env self s))
                       = calls s @ Cache_lookup d # Connect d ok # rest
                     \<and> \<not> list_ex active_scan rest)
          \<and> (\<exists>rest. calls (snd (async_dock env self s))
                       = calls s @ Cache_lookup d # Connect d ok # rest
                     \<and> \<not> list_ex active_scan rest)
          \<and> (\<exists>rest. calls (snd (async_pause env self s))
                       = calls s @ Cache_lookup d # Connect d ok # rest
                     \<and> \<not> list_ex active_scan rest)
          \<and> (async_ble_device_from_address env w1 = None \<longrightarrow>
               take 4 (new_calls s (snd (async_setup_entry env s)))
                 = [Close_stale, Cache_lookup None, Active_scan found,
                    Connect found (fst (connect env found (snd (get_device env w1))))])"
  using start_lookup [OF assms, of self] dock_lookup [OF assms, of self]
    pause_lookup [OF assms, of self] setup_scans [of env s]
  by (simp add: Let_def)

theorem command_lookup_cache_only_witness:
  "\<not> is_connected sim_env
       (world (sim_world False None (Some ''AA'') True (Returns (Some 80))
                 (Returns (Some MowerActivity_CHARGING)) (Returns (Some MowerState_RESTRICTED))))
   \<and> (\<exists>rest. calls (snd (async_start_mowing sim_env (AutomowerLawnMower_init ''id'' ''Automower'' 7)
          (sim_world False None (Some ''AA'') True (Returns (Some 80))
             (Returns (Some MowerActivity_CHARGING)) (Returns (Some MowerState_RESTRICTED)))))
         = Cache_lookup None # Connect None (Returns False) # rest
         \<and> \<not> list_ex active_scan rest)
   \<and> (\<exists>rest. calls (snd (async_dock sim_env (AutomowerLawnMower_init ''id'' ''Automower'' 7)
          (sim_world False None (Some ''AA'') True (Returns (Some 80))
             (Returns (Some MowerActivity_CHARGING)) (Returns (Some MowerState_RESTRICTED)))))
         = Cache_lookup None # Connect None (Returns False) # rest
         \<and> \<not> list_ex active_scan rest)
   \<and> (\<exists>rest. calls (snd (async_pause sim_env (AutomowerLawnMower_init ''id'' ''Automower'' 7)
          (sim_world False None (Some ''AA'') True (Returns (Some 80))
             (Returns (Some MowerActivity_CHARGING)) (Returns (Some MowerState_RESTRICTED)))))
         = Cache_lookup None # Connect None (Returns False) # rest
         \<and> \<not> list_ex active_scan rest)
   \<and> take 4 (new_calls
         (sim_world False None (Some ''AA'') True (Returns (Some 80))
             (Returns (Some MowerActivity_CHARGING)) (Returns (Some MowerState_RESTRICTED)))
         (snd (async_setup_entry sim_env
           (sim_world False None (Some ''AA'') True (Returns (Some 80))
             (Returns (Some MowerActivity_CHARGING)) (Returns (Some MowerState_RESTRICTED))))))
       = [Close_stale, Cache_lookup None, Active_scan (Some ''AA''),
          Connect (Some ''AA'') (Returns True)]"
proof -
  let ?s = "sim_world False None (Some ''AA'') True (Returns (Some 80))
              (Returns (Some MowerActivity_CHARGING)) (Returns (Some MowerState_RESTRICTED))"
  have off: "\<not> is_connected sim_env (world ?s)"
    by (simp add: sim_env_def sim_world_def)
  have env: "async_ble_device_from_address sim_env (world ?s) = None"
    "close_stale_connections_by_address sim_env (world ?s) = world ?s"
    "get_device sim_env (world ?s) = (Some ''AA'', world ?s)"
    "fst (connect sim_env None (world ?s)) = Returns False"
    "fst (connect sim_env (Some ''AA'') (world ?s)) = Returns True"
    "calls ?s = []"
    by (simp_all add: sim_env_def sim_world_def)
  from command_lookup_cache_only [OF off, of "AutomowerLawnMower_init ''id'' ''Automower'' 7"]
       off
  show ?thesis
    by (simp add: Let_def env)
qed

end
